theory Spec2Isabelle
  imports Complex_Main
begin

section \<open>Values\<close>

subsection \<open>Array elements\<close>

text \<open>
  An element of a numeric numpy array. The special values of IEEE 754 doubles are kept
  (\<open>PInf\<close>, \<open>NInf\<close>, \<open>NaN\<close>), because \<open>forecast_bias\<close> filters on NaN and divides
  without a guard. A finite element is an exact real: rounding and overflow of finite
  results are not modelled, and the two signed zeros are one value (a division by zero
  takes the sign of the dividend).
\<close>

datatype float64 = Fin real | PInf | NInf | NaN

definition signed_inf :: "bool \<Rightarrow> float64" where
  "signed_inf positive = (if positive then PInf else NInf)"

fun isnan :: "float64 \<Rightarrow> bool" where
  "isnan NaN = True"
| "isnan _ = False"

fun isfinite :: "float64 \<Rightarrow> bool" where
  "isfinite (Fin _) = True"
| "isfinite _ = False"

fun fl_neg :: "float64 \<Rightarrow> float64" where
  "fl_neg (Fin a) = Fin (- a)"
| "fl_neg PInf = NInf"
| "fl_neg NInf = PInf"
| "fl_neg NaN = NaN"

fun fl_add :: "float64 \<Rightarrow> float64 \<Rightarrow> float64" where
  "fl_add (Fin a) (Fin b) = Fin (a + b)"
| "fl_add (Fin a) PInf = PInf"
| "fl_add (Fin a) NInf = NInf"
| "fl_add PInf (Fin b) = PInf"
| "fl_add PInf PInf = PInf"
| "fl_add PInf NInf = NaN"
| "fl_add NInf (Fin b) = NInf"
| "fl_add NInf PInf = NaN"
| "fl_add NInf NInf = NInf"
| "fl_add NaN _ = NaN"
| "fl_add _ NaN = NaN"

definition fl_sub :: "float64 \<Rightarrow> float64 \<Rightarrow> float64" where
  "fl_sub a b = fl_add a (fl_neg b)"

fun fl_mul :: "float64 \<Rightarrow> float64 \<Rightarrow> float64" where
  "fl_mul (Fin a) (Fin b) = Fin (a * b)"
| "fl_mul (Fin a) PInf = (if a = 0 then NaN else signed_inf (0 < a))"
| "fl_mul (Fin a) NInf = (if a = 0 then NaN else signed_inf (a < 0))"
| "fl_mul PInf (Fin b) = (if b = 0 then NaN else signed_inf (0 < b))"
| "fl_mul NInf (Fin b) = (if b = 0 then NaN else signed_inf (b < 0))"
| "fl_mul PInf PInf = PInf"
| "fl_mul PInf NInf = NInf"
| "fl_mul NInf PInf = NInf"
| "fl_mul NInf NInf = PInf"
| "fl_mul NaN _ = NaN"
| "fl_mul _ NaN = NaN"

text \<open>
  numpy's true division never raises on arrays and numpy scalars: a zero divisor gives
  an infinity, or NaN for \<open>0 / 0\<close> (with a RuntimeWarning, which is not an error).
\<close>

fun fl_div :: "float64 \<Rightarrow> float64 \<Rightarrow> float64" where
  "fl_div (Fin a) (Fin b) =
     (if b \<noteq> 0 then Fin (a / b) else if a = 0 then NaN else signed_inf (0 < a))"
| "fl_div (Fin a) PInf = Fin 0"
| "fl_div (Fin a) NInf = Fin 0"
| "fl_div PInf (Fin b) = signed_inf (0 \<le> b)"
| "fl_div NInf (Fin b) = signed_inf (b < 0)"
| "fl_div PInf PInf = NaN"
| "fl_div PInf NInf = NaN"
| "fl_div NInf PInf = NaN"
| "fl_div NInf NInf = NaN"
| "fl_div NaN _ = NaN"
| "fl_div _ NaN = NaN"

text \<open>\<open>np.log\<close> and \<open>np.exp\<close>, elementwise.\<close>

fun fl_log :: "float64 \<Rightarrow> float64" where
  "fl_log (Fin a) = (if 0 < a then Fin (ln a) else if a = 0 then NInf else NaN)"
| "fl_log PInf = PInf"
| "fl_log NInf = NaN"
| "fl_log NaN = NaN"

fun fl_exp :: "float64 \<Rightarrow> float64" where
  "fl_exp (Fin a) = Fin (exp a)"
| "fl_exp PInf = PInf"
| "fl_exp NInf = Fin 0"
| "fl_exp NaN = NaN"

subsection \<open>Errors\<close>

text \<open>
  One constructor for each place where the module, or a library call it makes, raises:
  \<^item> \<open>TypeMismatch\<close>: the \<open>AssertionError\<close> of \<open>assert type(..) is type(..)\<close>;
  \<^item> \<open>UnsupportedShape\<close>: \<open>ValueError("Dataframes not supported in the adapter. ...")\<close>;
  \<^item> \<open>MissingDatetimeIndex\<close>: \<open>ValueError("MASE needs pandas Series with datetime index as inputs")\<close>;
  \<^item> \<open>NormalizationError\<close>: the bare \<open>ValueError()\<close> of the adapter's last \<open>else\<close>;
  \<^item> \<open>NumpyShapeError\<close>: numpy's \<open>ValueError\<close> for operands that do not broadcast, or a
    boolean mask that does not fit the array;
  \<^item> \<open>AttributeError\<close>: an attribute read on an object that has no such attribute;
  \<^item> \<open>UnsupportedMethod\<close>: the configuration error the specification names for an
    unknown transform method; no statement of the module raises it;
  \<^item> \<open>LibraryError\<close>: anything raised inside a collaborator that is passed in.
\<close>

datatype error =
    TypeMismatch
  | UnsupportedShape
  | MissingDatetimeIndex
  | NormalizationError
  | NumpyShapeError
  | AttributeError
  | UnsupportedMethod
  | LibraryError string

definition bind_err :: "error + 'a \<Rightarrow> ('a \<Rightarrow> error + 'b) \<Rightarrow> error + 'b" where
  "bind_err r f = (case r of Inl e \<Rightarrow> Inl e | Inr v \<Rightarrow> f v)"

subsection \<open>Python objects reaching the module\<close>

datatype index_dtype = Datetime64 | Int64 | ObjectDtype

text \<open>A pandas index: the dtype of its labels, and the labels.\<close>

datatype pd_index = Index index_dtype "int list"

text \<open>
  The objects the functions are called with, by concrete class: a one- or two-dimensional
  \<open>numpy.ndarray\<close> (two-dimensional by rows), a \<open>pandas.Series\<close> (index, values), a
  \<open>pandas.DataFrame\<close> (row index, column index, cells by rows), a numpy scalar, a darts
  \<open>TimeSeries\<close> (time index if it has one, values by rows), and an object of any other
  class, by the name of the class.
\<close>

datatype pyval =
    NdArray "float64 list"
  | NdArray2D "float64 list list"
  | PdSeries pd_index "float64 list"
  | PdDataFrame pd_index pd_index "float64 list list"
  | Scalar float64
  | TimeSeries "pd_index option" "float64 list list"
  | PyObject string

datatype pytype =
    T_ndarray | T_Series | T_DataFrame | T_float64 | T_TimeSeries | T_other string

text \<open>Python's \<open>type(v)\<close>.\<close>

fun type_of :: "pyval \<Rightarrow> pytype" where
  "type_of (NdArray _) = T_ndarray"
| "type_of (NdArray2D _) = T_ndarray"
| "type_of (PdSeries _ _) = T_Series"
| "type_of (PdDataFrame _ _ _) = T_DataFrame"
| "type_of (Scalar _) = T_float64"
| "type_of (TimeSeries _ _) = T_TimeSeries"
| "type_of (PyObject c) = T_other c"

section \<open>Forecast bias\<close>

text \<open>\<open>np.sum\<close> of a one-dimensional array; the sum of no elements is \<open>0.0\<close>.\<close>

definition np_sum :: "float64 list \<Rightarrow> float64" where
  "np_sum xs = foldl fl_add (Fin 0) xs"

text \<open>
  darts' \<open>_remove_nan_union(array_a, array_b)\<close>:
  \<^verbatim>\<open>
    isnan_mask = np.logical_or(np.isnan(array_a), np.isnan(array_b))
    return np.delete(array_a, isnan_mask), np.delete(array_b, isnan_mask)
  \<close>
  On two one-dimensional arrays of one length it deletes from both every position where
  either holds NaN. Arrays of different lengths do not broadcast to a mask that fits
  both, and a mask of two dimensions is refused by \<open>np.delete\<close>: numpy raises
  \<open>ValueError\<close>.
\<close>

definition retained :: "float64 list \<Rightarrow> float64 list \<Rightarrow> (float64 \<times> float64) list" where
  "retained a b = filter (\<lambda>(u, v). \<not> (isnan u \<or> isnan v)) (zip a b)"

fun remove_nan_union :: "pyval \<Rightarrow> pyval \<Rightarrow> error + (float64 list \<times> float64 list)" where
  "remove_nan_union (NdArray a) (NdArray b) =
     (if length a = length b
      then Inr (map fst (retained a b), map snd (retained a b))
      else Inl NumpyShapeError)"
| "remove_nan_union _ _ = Inl NumpyShapeError"

text \<open>
  \<open>forecast_bias(actual_series, pred_series, intersect, ...)\<close>. The first parameter of
  the model is darts' \<open>_get_values_or_raise\<close>, the library routine that takes the value
  arrays out of two \<open>TimeSeries\<close> (over their common time range when \<open>intersect\<close>
  holds) or raises. The keyword arguments \<open>reduction\<close>, \<open>inter_reduction\<close>, \<open>n_jobs\<close>
  and \<open>verbose\<close> are not read by the body.
\<close>

definition forecast_bias ::
  "(pyval \<Rightarrow> pyval \<Rightarrow> bool \<Rightarrow> error + (pyval \<times> pyval)) \<Rightarrow>
   pyval \<Rightarrow> pyval \<Rightarrow> bool \<Rightarrow> error + float64" where
  "forecast_bias get_values_or_raise actual_series pred_series intersect =
     (if type_of actual_series \<noteq> type_of pred_series then Inl TypeMismatch
      else
        bind_err
          (if type_of actual_series = T_ndarray then Inr (actual_series, pred_series)
           else get_values_or_raise actual_series pred_series intersect)
          (\<lambda>(y_true, y_pred).
            bind_err (remove_nan_union y_true y_pred)
              (\<lambda>(y_true, y_pred).
                let y_true_sum = np_sum y_true; y_pred_sum = np_sum y_pred
                in Inr (fl_mul (fl_div (fl_sub y_true_sum y_pred_sum) y_true_sum) (Fin 100)))))"

section \<open>Stationarity transform\<close>

text \<open>
  \<open>detrend_kwargs\<close> is a Python dict, passed by reference and written to by the
  function, so dicts live in a store of objects: an address holds the dict's current
  content. The default value \<open>{}\<close> of the parameter is one object, created when the
  module is loaded and shared by every call that omits the argument.
\<close>

datatype pyarg = PyBool bool | PyNum real | PyStr string

type_synonym kwargs = "string \<rightharpoonup> pyarg"

type_synonym addr = nat

text \<open>
  The state a call can change or add to: the dict objects, and the calls made to the
  detrending routine so far, each with the array and the keyword arguments it received.
\<close>

record world =
  dicts :: "addr \<Rightarrow> kwargs"
  detrend_calls :: "(float64 list \<times> kwargs) list"

definition default_detrend_kwargs :: addr where
  "default_detrend_kwargs = 0"

text \<open>The object bound to \<open>detrend_kwargs\<close>: the caller's, or the shared default.\<close>

fun kwargs_object :: "addr option \<Rightarrow> addr" where
  "kwargs_object None = default_detrend_kwargs"
| "kwargs_object (Some a) = a"

text \<open>
  An elementwise binary operation of numpy on two one-dimensional arrays: equal lengths
  pair up by position, an array of length one is broadcast against the other, and any
  other pair of lengths raises.
\<close>

definition np_binop ::
  "(float64 \<Rightarrow> float64 \<Rightarrow> float64) \<Rightarrow> float64 list \<Rightarrow> float64 list \<Rightarrow> error + float64 list" where
  "np_binop f a b =
     (if length a = length b then Inr (map2 f a b)
      else if length a = 1 then Inr (map (f (hd a)) b)
      else if length b = 1 then Inr (map (\<lambda>u. f u (hd b)) a)
      else Inl NumpyShapeError)"

text \<open>
  What \<open>make_stationary\<close> returns when it returns a pair: the stationary array and the
  inverse, a closure over the trend (\<open>detrend\<close>) or over \<open>x\<close> itself (\<open>logdiff\<close>).
\<close>

type_synonym stationary_result = "float64 list \<times> (float64 list \<Rightarrow> error + float64 list)"

text \<open>
  \<open>make_stationary(x, method, detrend_kwargs)\<close> on a one-dimensional array. The first
  parameter of the model is \<open>_detrend\<close> of \<open>src.decomposition.seasonal\<close>, called as
  \<open>_detrend(x, **detrend_kwargs)\<close> and unpacked into two arrays. \<open>x[:-1]\<close> is
  \<open>butlast x\<close> and \<open>x[1:]\<close> is \<open>tl x\<close>, both empty for an empty \<open>x\<close>. A method that is
  neither \<open>"detrend"\<close> nor \<open>"logdiff"\<close> matches no branch and the function falls off
  its end: the result is Python's \<open>None\<close>, here \<open>Inr None\<close>.
\<close>

definition make_stationary ::
  "(float64 list \<Rightarrow> kwargs \<Rightarrow> error + (float64 list \<times> float64 list)) \<Rightarrow>
   world \<Rightarrow> float64 list \<Rightarrow> string \<Rightarrow> addr option \<Rightarrow>
   (error + stationary_result option) \<times> world" where
  "make_stationary detrend w x method detrend_kwargs =
     (if method = ''detrend'' then
        let d = kwargs_object detrend_kwargs;
            kw = (dicts w d)(''return_trend'' \<mapsto> PyBool True);
            w' = w\<lparr>dicts := (dicts w)(d := kw),
                   detrend_calls := detrend_calls w @ [(x, kw)]\<rparr>
        in (bind_err (detrend x kw)
              (\<lambda>(stationary, trend).
                 Inr (Some (stationary, \<lambda>st. np_binop fl_add st trend))),
            w')
      else if method = ''logdiff'' then
        (bind_err (np_binop fl_div (butlast x) (tl x))
           (\<lambda>q. Inr (Some (map fl_log q,
                            \<lambda>st. np_binop fl_mul (map fl_exp st) (tl x)))),
         w)
      else (Inr None, w))"

section \<open>Metric adapter\<close>

text \<open>
  The keyword arguments a darts metric is called with. \<open>kw_insample\<close> and \<open>kw_m\<close> are
  \<open>None\<close> when the keyword is left out of the call, and \<open>Some v\<close> when it is passed
  (\<open>v\<close> itself may be Python's \<open>None\<close>).
\<close>

record metric_invocation =
  kw_actual_series :: pyval
  kw_pred_series :: pyval
  kw_insample :: "pyval option option"
  kw_m :: "int option option"
  kw_intersect :: bool
  kw_reduction :: "float64 list \<Rightarrow> float64"
  kw_inter_reduction :: "pyval \<Rightarrow> pyval"
  kw_n_jobs :: int
  kw_verbose :: bool

text \<open>The injected metric: its \<open>__name__\<close> and what calling it does.\<close>

record metric_func =
  fn_name :: string
  fn_call :: "metric_invocation \<Rightarrow> error + pyval"

text \<open>The arguments the adapter hands on untouched.\<close>

record passed_on =
  intersect :: bool
  reduction :: "float64 list \<Rightarrow> float64"
  inter_reduction :: "pyval \<Rightarrow> pyval"
  n_jobs :: int
  verbose :: bool

text \<open>
  What the adapter calls outside the module: \<open>is_datetime_dtypes\<close> of
  \<open>src.utils.data_utils\<close>, and darts' constructors \<open>TimeSeries.from_values\<close> and
  \<open>TimeSeries.from_series\<close>.
\<close>

record library =
  is_datetime_dtypes :: "pd_index \<Rightarrow> bool"
  from_values :: "pyval \<Rightarrow> error + pyval"
  from_series :: "pyval \<Rightarrow> error + pyval"

text \<open>\<open>frame.shape[1]\<close>, the number of columns.\<close>

fun ncols :: "pyval \<Rightarrow> nat" where
  "ncols (PdDataFrame _ (Index _ cl) _) = length cl"
| "ncols _ = 0"

text \<open>
  pandas' \<open>squeeze()\<close>: a frame of one cell becomes a scalar, a frame of one column a
  series over the row index, a frame of one row a series over the column index, and any
  other frame stays as it is; a series of one element becomes a scalar. (A well-formed
  frame has as many rows as row labels and as many cells in each row as column labels.)
  The adapter calls it on frames only.
\<close>

fun squeeze :: "pyval \<Rightarrow> pyval" where
  "squeeze (PdDataFrame (Index rt rl) (Index ct cl) cells) =
     (if length rl = 1 \<and> length cl = 1 then
        (case concat cells of
           v # _ \<Rightarrow> Scalar v
         | [] \<Rightarrow> PdDataFrame (Index rt rl) (Index ct cl) cells)
      else if length cl = 1 then PdSeries (Index rt rl) (concat cells)
      else if length rl = 1 then PdSeries (Index ct cl) (concat cells)
      else PdDataFrame (Index rt rl) (Index ct cl) cells)"
| "squeeze (PdSeries i vs) = (case vs of [v] \<Rightarrow> Scalar v | _ \<Rightarrow> PdSeries i vs)"
| "squeeze v = v"

text \<open>The attributes \<open>.index\<close> and \<open>.values\<close> of a series or a frame.\<close>

fun attr_index :: "pyval \<Rightarrow> error + pd_index" where
  "attr_index (PdSeries i _) = Inr i"
| "attr_index (PdDataFrame i _ _) = Inr i"
| "attr_index _ = Inl AttributeError"

fun attr_values :: "pyval \<Rightarrow> error + pyval" where
  "attr_values (PdSeries _ vs) = Inr (NdArray vs)"
| "attr_values (PdDataFrame _ _ cells) = Inr (NdArray2D cells)"
| "attr_values _ = Inl AttributeError"

text \<open>
  Lines 119 to 143 of the adapter, from the values that \<open>is_nd_array\<close>,
  \<open>is_pd_series\<close>, \<open>actual_series\<close>, \<open>pred_series\<close> and \<open>insample\<close> hold when
  line 119 is reached. Python's \<open>and\<close> does not evaluate its right operand when the
  left one is false, so an index is read only when every index before it was a datetime
  index.
\<close>

definition coerce_and_forward ::
  "library \<Rightarrow> metric_func \<Rightarrow> bool \<Rightarrow> bool \<Rightarrow> pyval \<Rightarrow> pyval \<Rightarrow> pyval option \<Rightarrow>
   int option \<Rightarrow> passed_on \<Rightarrow> error + pyval" where
  "coerce_and_forward L metric is_nd_array is_pd_series actual_series pred_series insample m kw =
     bind_err
       (if is_pd_series then
          bind_err (attr_index actual_series) (\<lambda>ai.
          bind_err (if is_datetime_dtypes L ai
                    then bind_err (attr_index pred_series) (\<lambda>pi. Inr (is_datetime_dtypes L pi))
                    else Inr False) (\<lambda>both.
            case insample of
              None \<Rightarrow> Inr both
            | Some ins \<Rightarrow>
                if both
                then bind_err (attr_index ins) (\<lambda>ii. Inr (is_datetime_dtypes L ii))
                else Inr False))
        else Inr False)
       (\<lambda>is_datetime_index.
          if fn_name metric = ''mase'' \<and> \<not> is_datetime_index then Inl MissingDatetimeIndex
          else
            bind_err
              (if is_nd_array \<or> (is_pd_series \<and> \<not> is_datetime_index) then
                 bind_err (if is_pd_series then attr_values actual_series
                           else Inr actual_series) (\<lambda>av.
                 bind_err (from_values L av) (\<lambda>a.
                 bind_err (if is_pd_series then attr_values pred_series
                           else Inr pred_series) (\<lambda>pv.
                 bind_err (from_values L pv) (\<lambda>p.
                   case insample of
                     None \<Rightarrow> Inr (a, p, None)
                   | Some ins \<Rightarrow>
                       bind_err (if is_pd_series then attr_values ins else Inr ins) (\<lambda>iv.
                       bind_err (from_values L iv) (\<lambda>i. Inr (a, p, Some i)))))))
               else if is_pd_series \<and> is_datetime_index then
                 bind_err (from_series L actual_series) (\<lambda>a.
                 bind_err (from_series L pred_series) (\<lambda>p.
                   case insample of
                     None \<Rightarrow> Inr (a, p, None)
                   | Some ins \<Rightarrow> bind_err (from_series L ins) (\<lambda>i. Inr (a, p, Some i))))
               else Inl NormalizationError)
              (\<lambda>(a, p, i).
                 if fn_name metric = ''mase'' then
                   fn_call metric
                     \<lparr>kw_actual_series = a, kw_pred_series = p,
                      kw_insample = Some i, kw_m = Some m,
                      kw_intersect = intersect kw, kw_reduction = reduction kw,
                      kw_inter_reduction = inter_reduction kw,
                      kw_n_jobs = n_jobs kw, kw_verbose = verbose kw\<rparr>
                 else
                   fn_call metric
                     \<lparr>kw_actual_series = a, kw_pred_series = p,
                      kw_insample = None, kw_m = None,
                      kw_intersect = intersect kw, kw_reduction = reduction kw,
                      kw_inter_reduction = inter_reduction kw,
                      kw_n_jobs = n_jobs kw, kw_verbose = verbose kw\<rparr>))"

text \<open>
  \<open>darts_metrics_adapter(metric_func, actual_series, pred_series, insample, m, ...)\<close>.
  Lines 105 to 118: the two assertions, the three \<open>isinstance\<close> tests, and the
  \<open>if\<close>/\<open>else\<close> on \<open>is_pd_dataframe and actual_series.shape[1]==1\<close>. Its \<open>if\<close>
  branch squeezes the three inputs and sets \<open>is_pd_series = True\<close>; its \<open>else\<close> branch
  raises, for every input that is not a frame of one column.
\<close>

definition darts_metrics_adapter ::
  "library \<Rightarrow> metric_func \<Rightarrow> pyval \<Rightarrow> pyval \<Rightarrow> pyval option \<Rightarrow> int option \<Rightarrow>
   passed_on \<Rightarrow> error + pyval" where
  "darts_metrics_adapter L metric actual_series pred_series insample m kw =
     (if type_of actual_series \<noteq> type_of pred_series then Inl TypeMismatch
      else if (case insample of
                 None \<Rightarrow> False
               | Some ins \<Rightarrow> type_of actual_series \<noteq> type_of ins) then Inl TypeMismatch
      else
        let is_nd_array = (type_of actual_series = T_ndarray);
            is_pd_series = (type_of actual_series = T_Series);
            is_pd_dataframe = (type_of actual_series = T_DataFrame)
        in if is_pd_dataframe \<and> ncols actual_series = 1 then
             coerce_and_forward L metric is_nd_array True
               (squeeze actual_series) (squeeze pred_series) (map_option squeeze insample) m kw
           else Inl UnsupportedShape)"

section \<open>Stand-ins for the collaborators\<close>

text \<open>
  The routines below stand for code outside the module where a theorem is instantiated
  at a concrete input; no general theorem depends on them.
\<close>

text \<open>The state before any call: every dict object empty, no call made.\<close>

definition empty_world :: world where
  "empty_world = \<lparr>dicts = (\<lambda>_. Map.empty), detrend_calls = []\<rparr>"

text \<open>A detrending routine that always raises.\<close>

definition failing_detrend ::
  "float64 list \<Rightarrow> kwargs \<Rightarrow> error + (float64 list \<times> float64 list)" where
  "failing_detrend x kw = Inl (LibraryError ''_detrend'')"

text \<open>
  A detrending routine whose trend is the constant 1: asked for the trend, it returns the
  residual \<open>x - trend\<close> and the trend; it raises when it is not asked for the trend.
\<close>

definition unit_trend_detrend ::
  "float64 list \<Rightarrow> kwargs \<Rightarrow> error + (float64 list \<times> float64 list)" where
  "unit_trend_detrend x kw =
     (if kw ''return_trend'' = Some (PyBool True)
      then Inr (map (\<lambda>v. fl_sub v (Fin 1)) x, map (\<lambda>v. Fin 1) x)
      else Inl (LibraryError ''_detrend''))"

text \<open>A \<open>_get_values_or_raise\<close> that always raises.\<close>

definition no_time_series :: "pyval \<Rightarrow> pyval \<Rightarrow> bool \<Rightarrow> error + (pyval \<times> pyval)" where
  "no_time_series a p i = Inl (LibraryError ''_get_values_or_raise'')"

text \<open>
  Modelled from the spec: \<open>is_datetime_dtypes\<close> of \<open>src.utils.data_utils\<close>, which is not
  among the sources. The specification calls it the index-type predicate that tells
  whether an index is a genuine datetime index.
\<close>

fun datetime_dtype_index :: "pd_index \<Rightarrow> bool" where
  "datetime_dtype_index (Index d _) = (d = Datetime64)"

text \<open>
  darts' constructors as the specification describes them: \<open>from_values\<close> keeps the
  values and their order and has no index, \<open>from_series\<close> keeps the values and the
  index of a series.
\<close>

fun ts_from_values :: "pyval \<Rightarrow> error + pyval" where
  "ts_from_values (NdArray vs) = Inr (TimeSeries None (map (\<lambda>v. [v]) vs))"
| "ts_from_values (NdArray2D cells) = Inr (TimeSeries None cells)"
| "ts_from_values _ = Inl (LibraryError ''from_values'')"

fun ts_from_series :: "pyval \<Rightarrow> error + pyval" where
  "ts_from_series (PdSeries i vs) = Inr (TimeSeries (Some i) (map (\<lambda>v. [v]) vs))"
| "ts_from_series _ = Inl (LibraryError ''from_series'')"

definition reference_library :: library where
  "reference_library =
     \<lparr>is_datetime_dtypes = datetime_dtype_index,
      from_values = ts_from_values,
      from_series = ts_from_series\<rparr>"

text \<open>A metric of a given name that hands back the \<open>actual_series\<close> it was called with.\<close>

definition probe_metric :: "string \<Rightarrow> metric_func" where
  "probe_metric name = \<lparr>fn_name = name, fn_call = (\<lambda>inv. Inr (kw_actual_series inv))\<rparr>"

text \<open>The default values of the adapter's signature; \<open>np_mean\<close> is \<open>np.mean\<close>.\<close>

definition np_mean :: "float64 list \<Rightarrow> float64" where
  "np_mean xs = fl_div (np_sum xs) (Fin (real (length xs)))"

definition default_passed_on :: passed_on where
  "default_passed_on =
     \<lparr>intersect = True, reduction = np_mean, inter_reduction = (\<lambda>v. v),
      n_jobs = 1, verbose = False\<rparr>"

section \<open>Auxiliary facts\<close>

lemma bind_err_simps:
  "bind_err (Inl e) f = Inl e"
  "bind_err (Inr v) f = f v"
  by (simp_all add: bind_err_def)

text \<open>Scaling by 100 before or after the division gives the same element.\<close>

lemma mul_div_100:
  "fl_mul (fl_div d s) (Fin 100) = fl_div (fl_mul (Fin 100) d) s"
  by (cases d; cases s) (auto simp: signed_inf_def)

lemma zero_baseline_not_finite:
  "\<not> isfinite (fl_mul (fl_div (fl_sub (Fin 0) s) (Fin 0)) (Fin 100))"
  by (cases s) (auto simp: fl_sub_def signed_inf_def)

lemma retained_filter:
  "retained a p = filter (\<lambda>(u, v). \<not> isnan u \<and> \<not> isnan v) (zip a p)"
  unfolding retained_def by (rule filter_cong) auto

text \<open>
  On positive finite elements, \<open>exp (log (x[:-1] / x[1:])) * x[1:]\<close> is \<open>x[:-1]\<close>.
\<close>

lemma logdiff_round_trip_aux:
  "\<forall>r\<in>set rs. 0 < r \<Longrightarrow>
   map2 fl_mul (map fl_exp (map fl_log (map2 fl_div (butlast (map Fin rs)) (tl (map Fin rs)))))
     (tl (map Fin rs)) = map Fin (butlast rs)"
proof (induction rs rule: induct_list012)
  case 1
  then show ?case by simp
next
  case (2 x)
  then show ?case by simp
next
  case (3 x y zs)
  then show ?case by simp
qed

text \<open>On finite elements of one length, \<open>(x - trend) + trend\<close> is \<open>x\<close>.\<close>

lemma detrend_round_trip_aux:
  "length ts = length rs \<Longrightarrow>
   map2 fl_add (map2 fl_sub (map Fin rs) (map Fin ts)) (map Fin ts) = map Fin rs"
  by (induction rs ts rule: list_induct2') (simp_all add: fl_sub_def)

text \<open>
  The check for \<open>"mase"\<close> on lines 125 to 127 and the forwarding on lines 140 and 141, on
  the inputs that reach them: two frames of one column and more than one row. With
  datetime indexes the metric is called with the two indexed series, with \<open>insample\<close>
  and with \<open>m\<close>; when the index of \<open>actual_series\<close> is not a datetime index, the call
  fails with \<open>MissingDatetimeIndex\<close>.
\<close>

lemma mase_on_single_column_frames:
  assumes "length rl \<noteq> 1" and "length rl' \<noteq> 1"
  shows "is_datetime_dtypes L (Index rt rl) \<Longrightarrow> is_datetime_dtypes L (Index rt' rl') \<Longrightarrow>
     darts_metrics_adapter L (metric\<lparr>fn_name := ''mase''\<rparr>)
       (PdDataFrame (Index rt rl) (Index ct [c]) cells)
       (PdDataFrame (Index rt' rl') (Index ct' [c']) cells') None m kw =
     bind_err (from_series L (PdSeries (Index rt rl) (concat cells))) (\<lambda>a.
     bind_err (from_series L (PdSeries (Index rt' rl') (concat cells'))) (\<lambda>p.
       fn_call metric
         \<lparr>kw_actual_series = a, kw_pred_series = p,
          kw_insample = Some None, kw_m = Some m,
          kw_intersect = intersect kw, kw_reduction = reduction kw,
          kw_inter_reduction = inter_reduction kw,
          kw_n_jobs = n_jobs kw, kw_verbose = verbose kw\<rparr>))"
    and "\<not> is_datetime_dtypes L (Index rt rl) \<Longrightarrow>
     darts_metrics_adapter L (metric\<lparr>fn_name := ''mase''\<rparr>)
       (PdDataFrame (Index rt rl) (Index ct [c]) cells)
       (PdDataFrame (Index rt' rl') (Index ct' [c']) cells') None m kw =
     Inl MissingDatetimeIndex"
  using assms
  by (simp_all add: darts_metrics_adapter_def coerce_and_forward_def bind_err_def
        split: sum.splits)

section \<open>Properties of the stationarity transform\<close>

text \<open>
  C2, as amended. The inverse returned by \<open>make_stationary\<close>, applied to the transformed
  array, gives back:
  \<^item> for \<open>"logdiff"\<close> and an array of positive finite elements, the array without its
    last element (\<open>x[:-1]\<close>), one element shorter than \<open>x\<close>;
  \<^item> for \<open>"detrend"\<close>, the array \<open>x\<close> itself, of the same length, when the detrending
    routine returns a finite trend of the length of \<open>x\<close> together with the residual
    \<open>x - trend\<close>.
  Elements are exact reals here, so "equal within tolerance" reads as equal. Each part
  states the length of the transformed array and the result of the inverse on it.
\<close>

theorem make_stationary_round_trip:
  "((\<forall>r\<in>set rs. 0 < r) \<longrightarrow>
      map_sum id (map_option (\<lambda>(st, inverse). (length st, inverse st)))
        (fst (make_stationary detrend w (map Fin rs) ''logdiff'' detrend_kwargs))
      = Inr (Some (length rs - 1, Inr (map Fin (butlast rs)))))
   \<and> (length ts = length rs \<and>
      detrend (map Fin rs)
        ((dicts w (kwargs_object detrend_kwargs))(''return_trend'' \<mapsto> PyBool True))
        = Inr (map2 fl_sub (map Fin rs) (map Fin ts), map Fin ts) \<longrightarrow>
      map_sum id (map_option (\<lambda>(st, inverse). (length st, inverse st)))
        (fst (make_stationary detrend w (map Fin rs) ''detrend'' detrend_kwargs))
      = Inr (Some (length rs, Inr (map Fin rs))))"
proof (intro conjI impI)
  assume pos: "\<forall>r\<in>set rs. 0 < r"
  show "map_sum id (map_option (\<lambda>(st, inverse). (length st, inverse st)))
        (fst (make_stationary detrend w (map Fin rs) ''logdiff'' detrend_kwargs))
      = Inr (Some (length rs - 1, Inr (map Fin (butlast rs))))"
    using logdiff_round_trip_aux [OF pos]
    by (simp add: make_stationary_def np_binop_def bind_err_simps del: map_butlast map_tl)
next
  assume h: "length ts = length rs \<and>
      detrend (map Fin rs)
        ((dicts w (kwargs_object detrend_kwargs))(''return_trend'' \<mapsto> PyBool True))
        = Inr (map2 fl_sub (map Fin rs) (map Fin ts), map Fin ts)"
  then show "map_sum id (map_option (\<lambda>(st, inverse). (length st, inverse st)))
        (fst (make_stationary detrend w (map Fin rs) ''detrend'' detrend_kwargs))
      = Inr (Some (length rs, Inr (map Fin rs)))"
    using detrend_round_trip_aux [of ts rs]
    by (simp add: make_stationary_def np_binop_def bind_err_simps Let_def)
qed

text \<open>
  Both parts at \<open>x = [3, 6]\<close>: \<open>"logdiff"\<close> gives back \<open>[3]\<close>, and \<open>"detrend"\<close> with the
  constant trend \<open>[1, 1]\<close> gives back \<open>[3, 6]\<close>.
\<close>

theorem make_stationary_round_trip_witness:
  "0 < (3::real) \<and> 0 < (6::real)
   \<and> map_sum id (map_option (\<lambda>(st, inverse). (length st, inverse st)))
        (fst (make_stationary unit_trend_detrend empty_world (map Fin [3, 6]) ''logdiff'' None))
      = Inr (Some (1, Inr [Fin 3]))
   \<and> length [1, 1::real] = length [3, 6::real]
   \<and> unit_trend_detrend (map Fin [3, 6])
        ((dicts empty_world (kwargs_object None))(''return_trend'' \<mapsto> PyBool True))
        = Inr (map2 fl_sub (map Fin [3, 6]) (map Fin [1, 1]), map Fin [1, 1])
   \<and> map_sum id (map_option (\<lambda>(st, inverse). (length st, inverse st)))
        (fst (make_stationary unit_trend_detrend empty_world (map Fin [3, 6]) ''detrend'' None))
      = Inr (Some (2, Inr [Fin 3, Fin 6]))"
  using make_stationary_round_trip [of "[3, 6]" unit_trend_detrend empty_world None "[1, 1]"]
  by (simp add: unit_trend_detrend_def)

text \<open>
  The claim as stated fails for \<open>"logdiff"\<close> at the positive array \<open>[1, 2]\<close>: the
  transformed array is \<open>[log (1/2)]\<close>, and the inverse gives \<open>[1]\<close>, not \<open>[1, 2]\<close>.
\<close>

theorem logdiff_round_trip_counterexample:
  "map_sum id (map_option (\<lambda>(st, inverse). inverse st))
     (fst (make_stationary failing_detrend empty_world [Fin 1, Fin 2] ''logdiff'' None))
     = Inr (Some (Inr [Fin 1]))
   \<and> map_sum id (map_option (\<lambda>(st, inverse). inverse st))
     (fst (make_stationary failing_detrend empty_world [Fin 1, Fin 2] ''logdiff'' None))
     \<noteq> Inr (Some (Inr [Fin 1, Fin 2]))"
  by (simp add: make_stationary_def np_binop_def bind_err_simps)

text \<open>
  C4, as amended. What a call of \<open>make_stationary\<close> does to the dict objects: with the
  method \<open>"detrend"\<close> it sets \<open>return_trend\<close> to \<open>True\<close> in the dict bound to
  \<open>detrend_kwargs\<close> (the caller's object, or the shared default when the argument is
  omitted) and leaves every other key and every other object as it was, also when the
  detrending routine raises; with any other method it changes no dict.
\<close>

theorem make_stationary_dict_effect:
  "dicts (snd (make_stationary detrend w x method detrend_kwargs)) =
     (if method = ''detrend''
      then (dicts w)(kwargs_object detrend_kwargs :=
              (dicts w (kwargs_object detrend_kwargs))(''return_trend'' \<mapsto> PyBool True))
      else dicts w)"
  by (simp add: make_stationary_def Let_def)

text \<open>
  The claim as stated fails: a caller who passes an empty dict (the object at address 1)
  with the method \<open>"detrend"\<close> finds it changed after the call.
\<close>

theorem make_stationary_mutates_counterexample:
  "dicts (snd (make_stationary failing_detrend empty_world [Fin 1, Fin 2] ''detrend'' (Some 1))) 1
     \<noteq> dicts empty_world 1"
proof
  assume "dicts (snd (make_stationary failing_detrend empty_world [Fin 1, Fin 2]
            ''detrend'' (Some 1))) 1 = dicts empty_world 1"
  then have "(Map.empty(''return_trend'' \<mapsto> PyBool True)) = (Map.empty :: kwargs)"
    by (simp add: make_stationary_def Let_def empty_world_def)
  then have "(Map.empty(''return_trend'' \<mapsto> PyBool True)) ''return_trend''
               = (Map.empty :: kwargs) ''return_trend''"
    by (rule arg_cong)
  then show False by simp
qed

text \<open>
  C5. With the method \<open>"detrend"\<close>, \<open>make_stationary\<close> calls the detrending routine
  exactly once more, on \<open>x\<close> and on the content of the options dict with
  \<open>return_trend\<close> overwritten by \<open>True\<close>; whatever the dict held under that key before,
  \<open>False\<close> included, the routine receives \<open>return_trend = True\<close>, and the result of the
  call is built from what the routine returns on these arguments.
\<close>

theorem detrend_called_with_return_trend:
  "detrend_calls (snd (make_stationary detrend w x ''detrend'' detrend_kwargs)) =
     detrend_calls w @
       [(x, (dicts w (kwargs_object detrend_kwargs))(''return_trend'' \<mapsto> PyBool True))]
   \<and> ((dicts w (kwargs_object detrend_kwargs))(''return_trend'' \<mapsto> PyBool True)) ''return_trend''
       = Some (PyBool True)
   \<and> fst (make_stationary detrend w x ''detrend'' detrend_kwargs) =
       bind_err
         (detrend x ((dicts w (kwargs_object detrend_kwargs))(''return_trend'' \<mapsto> PyBool True)))
         (\<lambda>(stationary, trend). Inr (Some (stationary, \<lambda>st. np_binop fl_add st trend)))"
  by (simp add: make_stationary_def Let_def)

text \<open>
  A caller's dict that holds \<open>return_trend = False\<close>: the routine is called with
  \<open>return_trend = True\<close> all the same.
\<close>

theorem detrend_called_with_return_trend_witness:
  "dicts (empty_world\<lparr>dicts := (dicts empty_world)(1 := [''return_trend'' \<mapsto> PyBool False])\<rparr>) 1
      ''return_trend'' = Some (PyBool False)
   \<and> detrend_calls (snd (make_stationary unit_trend_detrend
        (empty_world\<lparr>dicts := (dicts empty_world)(1 := [''return_trend'' \<mapsto> PyBool False])\<rparr>)
        [Fin 3, Fin 6] ''detrend'' (Some 1)))
      = [([Fin 3, Fin 6], [''return_trend'' \<mapsto> PyBool True])]"
  using detrend_called_with_return_trend
          [of unit_trend_detrend
              "empty_world\<lparr>dicts := (dicts empty_world)(1 := [''return_trend'' \<mapsto> PyBool False])\<rparr>"
              "[Fin 3, Fin 6]" "Some 1"]
  by (simp add: empty_world_def)

text \<open>
  C6, as amended. For a method that is neither \<open>"detrend"\<close> nor \<open>"logdiff"\<close>,
  \<open>make_stationary\<close> raises nothing and returns \<open>None\<close>: no pair of a stationary array
  and an inverse is produced, the detrending routine is not called and no dict changes.
\<close>

theorem unknown_method_returns_none:
  "method \<noteq> ''detrend'' \<Longrightarrow> method \<noteq> ''logdiff'' \<Longrightarrow>
     make_stationary detrend w x method detrend_kwargs = (Inr None, w)"
  by (simp add: make_stationary_def)

theorem unknown_method_returns_none_witness:
  "''diff'' \<noteq> ''detrend'' \<and> ''diff'' \<noteq> ''logdiff'' \<and>
   make_stationary failing_detrend empty_world [Fin 1, Fin 2] ''diff'' None
     = (Inr None, empty_world)"
  using unknown_method_returns_none
          [of "''diff''" failing_detrend empty_world "[Fin 1, Fin 2]" None]
  by simp

text \<open>
  The claim as stated fails at the method \<open>"diff"\<close>: the call returns \<open>None\<close> and signals
  no error.
\<close>

theorem unknown_method_counterexample:
  "fst (make_stationary failing_detrend empty_world [Fin 1, Fin 2] ''diff'' None) = Inr None
   \<and> fst (make_stationary failing_detrend empty_world [Fin 1, Fin 2] ''diff'' None)
       \<noteq> Inl UnsupportedMethod"
  by (simp add: make_stationary_def)

section \<open>Properties of the metric adapter\<close>

text \<open>
  C1. The claim asks that two numpy arrays, and two series without a datetime index,
  are coerced and forwarded. The code does not do so: both kinds of input take the
  \<open>else\<close> branch on line 117 and the call fails with the \<open>ValueError\<close> of line 118,
  whatever the metric, the index of the series and the collaborators.
\<close>

theorem adapter_rejects_arrays_and_series:
  "darts_metrics_adapter L metric (NdArray a) (NdArray p) None m kw = Inl UnsupportedShape
   \<and> darts_metrics_adapter L metric (PdSeries ia a) (PdSeries ip p) None m kw
       = Inl UnsupportedShape"
  by (simp add: darts_metrics_adapter_def)

text \<open>
  C3. The claim asks that \<open>"mase"\<close> on inputs with datetime indexes succeeds and forwards
  \<open>insample\<close> and \<open>m\<close>, and that it fails with \<open>MissingDatetimeIndex\<close> on inputs
  without them. On series the code fails with the \<open>ValueError\<close> of line 118 instead,
  whatever their indexes are and whatever the index predicate says of them, with or
  without \<open>insample\<close>; on numpy arrays it fails with the same error. Neither input
  reaches the check for \<open>"mase"\<close>.
\<close>

theorem adapter_mase_rejects_datetime_series:
  "darts_metrics_adapter L (metric\<lparr>fn_name := ''mase''\<rparr>)
      (PdSeries ia a) (PdSeries ip p) (Some (PdSeries ii ins)) m kw = Inl UnsupportedShape
   \<and> darts_metrics_adapter L (metric\<lparr>fn_name := ''mase''\<rparr>)
      (PdSeries ia a) (PdSeries ip p) None m kw = Inl UnsupportedShape
   \<and> darts_metrics_adapter L (metric\<lparr>fn_name := ''mase''\<rparr>)
      (NdArray a) (NdArray p) None m kw = Inl UnsupportedShape"
  by (simp add: darts_metrics_adapter_def)

text \<open>
  C7. When \<open>actual_series\<close> and \<open>pred_series\<close> are of different concrete types, the
  adapter and \<open>forecast_bias\<close> both fail with the type-mismatch error of their first
  statement; no collaborator has any influence on the outcome.
\<close>

theorem type_mismatch_rejected:
  "type_of actual_series \<noteq> type_of pred_series \<Longrightarrow>
     darts_metrics_adapter L metric actual_series pred_series insample m kw = Inl TypeMismatch
     \<and> forecast_bias gv actual_series pred_series i = Inl TypeMismatch"
  by (simp add: darts_metrics_adapter_def forecast_bias_def)

theorem type_mismatch_rejected_witness:
  "type_of (NdArray [Fin 1, Fin 2]) \<noteq> type_of (PdSeries (Index Datetime64 [0, 1]) [Fin 1, Fin 2])
   \<and> darts_metrics_adapter reference_library (probe_metric ''mae'') (NdArray [Fin 1, Fin 2])
        (PdSeries (Index Datetime64 [0, 1]) [Fin 1, Fin 2]) None (Some 1) default_passed_on
       = Inl TypeMismatch
   \<and> forecast_bias no_time_series (NdArray [Fin 1, Fin 2])
        (PdSeries (Index Datetime64 [0, 1]) [Fin 1, Fin 2]) True = Inl TypeMismatch"
  using type_mismatch_rejected
          [of "NdArray [Fin 1, Fin 2]" "PdSeries (Index Datetime64 [0, 1]) [Fin 1, Fin 2]"
              reference_library "probe_metric ''mae''" None "Some 1" default_passed_on
              no_time_series True]
  by simp

section \<open>Properties of the forecast bias\<close>

text \<open>
  C8, as amended. For inputs of one type whose value arrays (the inputs themselves when
  they are numpy arrays, otherwise what the library takes out of them) are
  one-dimensional and of equal length, \<open>forecast_bias\<close> keeps exactly the positions at
  which neither array holds NaN, in order and paired, and returns
  \<open>100 * (sum actual - sum predicted) / sum actual\<close> over the kept pairs.
\<close>

theorem forecast_bias_value:
  assumes "type_of actual_series = type_of pred_series"
    and "(if type_of actual_series = T_ndarray then Inr (actual_series, pred_series)
          else gv actual_series pred_series i) = Inr (NdArray a, NdArray p)"
    and "length a = length p"
  shows "forecast_bias gv actual_series pred_series i =
     (let kept = filter (\<lambda>(u, v). \<not> isnan u \<and> \<not> isnan v) (zip a p);
          sum_actual = np_sum (map fst kept); sum_predicted = np_sum (map snd kept)
      in Inr (fl_div (fl_mul (Fin 100) (fl_sub sum_actual sum_predicted)) sum_actual))"
  using assms
  by (simp add: forecast_bias_def bind_err_simps retained_filter mul_div_100 Let_def)

text \<open>
  The two examples of the claim: \<open>[100, 100]\<close> against \<open>[90, 90]\<close> gives 10, and
  \<open>[1, NaN, 3]\<close> against \<open>[1, 2, NaN]\<close> keeps the single pair \<open>(1, 1)\<close> and gives 0.
\<close>

theorem forecast_bias_value_witness:
  "type_of (NdArray [Fin 100, Fin 100]) = type_of (NdArray [Fin 90, Fin 90])
   \<and> length [Fin 100, Fin 100] = length [Fin 90, Fin 90]
   \<and> forecast_bias no_time_series (NdArray [Fin 100, Fin 100]) (NdArray [Fin 90, Fin 90]) True
       = Inr (Fin 10)
   \<and> length [Fin 1, NaN, Fin 3] = length [Fin 1, Fin 2, NaN]
   \<and> filter (\<lambda>(u, v). \<not> isnan u \<and> \<not> isnan v) (zip [Fin 1, NaN, Fin 3] [Fin 1, Fin 2, NaN])
       = [(Fin 1, Fin 1)]
   \<and> forecast_bias no_time_series (NdArray [Fin 1, NaN, Fin 3]) (NdArray [Fin 1, Fin 2, NaN]) True
       = Inr (Fin 0)"
  using forecast_bias_value [of "NdArray [Fin 100, Fin 100]" "NdArray [Fin 90, Fin 90]"
          no_time_series True "[Fin 100, Fin 100]" "[Fin 90, Fin 90]"]
        forecast_bias_value [of "NdArray [Fin 1, NaN, Fin 3]" "NdArray [Fin 1, Fin 2, NaN]"
          no_time_series True "[Fin 1, NaN, Fin 3]" "[Fin 1, Fin 2, NaN]"]
  by (simp add: np_sum_def fl_sub_def)

text \<open>
  The claim as stated, for every pair of inputs of one kind, fails on two numpy arrays
  of different lengths: the call raises numpy's \<open>ValueError\<close> and returns nothing.
\<close>

theorem forecast_bias_unequal_lengths_counterexample:
  "forecast_bias no_time_series (NdArray [Fin 1, Fin 2]) (NdArray [Fin 1, Fin 2, Fin 3]) True
     = Inl NumpyShapeError"
  by (simp add: forecast_bias_def bind_err_simps)

text \<open>
  C9. When the actual values kept after the removal of NaN sum to zero,
  \<open>forecast_bias\<close> raises nothing: it returns a value, and the value is an infinity or
  NaN.
\<close>

theorem forecast_bias_zero_baseline:
  assumes "type_of actual_series = type_of pred_series"
    and "(if type_of actual_series = T_ndarray then Inr (actual_series, pred_series)
          else gv actual_series pred_series i) = Inr (y_true, y_pred)"
    and "remove_nan_union y_true y_pred = Inr (kept_true, kept_pred)"
    and "np_sum kept_true = Fin 0"
  shows "\<exists>r. forecast_bias gv actual_series pred_series i = Inr r \<and> \<not> isfinite r"
  using assms
  by (simp add: forecast_bias_def bind_err_simps zero_baseline_not_finite Let_def)

text \<open>
  At \<open>actual = [1, -1, NaN]\<close> and \<open>predicted = [1, 2, 5]\<close> the kept actual values are
  \<open>[1, -1]\<close>, which sum to zero.
\<close>

theorem forecast_bias_zero_baseline_witness:
  "type_of (NdArray [Fin 1, Fin (- 1), NaN]) = type_of (NdArray [Fin 1, Fin 2, Fin 5])
   \<and> remove_nan_union (NdArray [Fin 1, Fin (- 1), NaN]) (NdArray [Fin 1, Fin 2, Fin 5])
       = Inr ([Fin 1, Fin (- 1)], [Fin 1, Fin 2])
   \<and> np_sum [Fin 1, Fin (- 1)] = Fin 0
   \<and> (\<exists>r. forecast_bias no_time_series (NdArray [Fin 1, Fin (- 1), NaN])
             (NdArray [Fin 1, Fin 2, Fin 5]) True = Inr r \<and> \<not> isfinite r)"
proof -
  have t: "type_of (NdArray [Fin 1, Fin (- 1), NaN]) = type_of (NdArray [Fin 1, Fin 2, Fin 5])"
    by simp
  have r: "remove_nan_union (NdArray [Fin 1, Fin (- 1), NaN]) (NdArray [Fin 1, Fin 2, Fin 5])
       = Inr ([Fin 1, Fin (- 1)], [Fin 1, Fin 2])"
    by (simp add: retained_def)
  have s: "np_sum [Fin 1, Fin (- 1)] = Fin 0"
    by (simp add: np_sum_def)
  have e: "(if type_of (NdArray [Fin 1, Fin (- 1), NaN]) = T_ndarray
            then Inr (NdArray [Fin 1, Fin (- 1), NaN], NdArray [Fin 1, Fin 2, Fin 5])
            else no_time_series (NdArray [Fin 1, Fin (- 1), NaN])
                   (NdArray [Fin 1, Fin 2, Fin 5]) True)
           = Inr (NdArray [Fin 1, Fin (- 1), NaN], NdArray [Fin 1, Fin 2, Fin 5])"
    by simp
  show ?thesis
    using t r s
      forecast_bias_zero_baseline [where gv = no_time_series and i = True, OF t e r s]
    by blast
qed

text \<open>
  C10. On two numpy arrays the result of \<open>forecast_bias\<close> does not depend on the
  \<open>intersect\<close> flag: the call with \<open>intersect=True\<close> and the call with
  \<open>intersect=False\<close> return the same value, or fail alike, whatever the library routine
  for \<open>TimeSeries\<close> would do, since raw arrays never reach it. This holds for every pair
  of one-dimensional arrays, those of equal length among them.
\<close>

theorem forecast_bias_ndarray_ignores_intersect:
  "forecast_bias gv (NdArray a) (NdArray p) True = forecast_bias gv (NdArray a) (NdArray p) False"
  by (simp add: forecast_bias_def)

end
